theory Spec2Isabelle
  imports Complex_Main "HOL-Library.Monad_Syntax"
begin

section \<open>JSON values and Python truthiness\<close>

text \<open>
  Request bodies and response bodies are JSON. A parsed body is a Python value: \<open>None\<close>,
  a bool, a number, a string, a list or a dict. A dict is kept as an association list;
  a lookup returns the first binding of the key.
\<close>

datatype json =
    JNull
  | JBool bool
  | JNum rat
  | JStr string
  | JArr "json list"
  | JObj "(string \<times> json) list"

text \<open>Python's \<open>bool(x)\<close>, which \<open>not x\<close> and \<open>all([...])\<close> consult.\<close>

fun truthy :: "json \<Rightarrow> bool" where
  "truthy JNull = False"
| "truthy (JBool b) = b"
| "truthy (JNum r) = (r \<noteq> 0)"
| "truthy (JStr s) = (s \<noteq> [])"
| "truthy (JArr xs) = (xs \<noteq> [])"
| "truthy (JObj kvs) = (kvs \<noteq> [])"

text \<open>\<open>data.get(k)\<close> and \<open>data.get(k, default)\<close> on a dict.\<close>

definition dict_get_default :: "(string \<times> json) list \<Rightarrow> string \<Rightarrow> json \<Rightarrow> json" where
  "dict_get_default d k dflt = (case map_of d k of None \<Rightarrow> dflt | Some v \<Rightarrow> v)"

definition dict_get :: "(string \<times> json) list \<Rightarrow> string \<Rightarrow> json" where
  "dict_get d k = dict_get_default d k JNull"

section \<open>Persistence layer (models.py)\<close>

text \<open>
  The three model classes share \<open>id\<close> and \<open>created_at\<close>; Task and Order share the
  owner reference \<open>user_id\<close>. Timestamps are whole seconds since the epoch. A column
  declared nullable is an option. A price is the number the Float column holds.
\<close>

record row =
  id' :: int
  created_at :: int

record user = row +
  username :: string
  email :: string
  password_hash :: string
  role :: "string option"

record owned = row +
  user_id :: int

record task = owned +
  title :: string
  description :: "string option"
  status :: "string option"
  due_date :: "int option"

record order = owned +
  product_name :: string
  quantity :: "int option"
  price :: rat

text \<open>
  The database: one table per model, rows in insertion order. \<open>foreign_keys\<close> says
  whether the storage engine enforces the declared \<open>ForeignKey('users.id')\<close>
  (PostgreSQL, the configured default, does; SQLite as opened here does not).
\<close>

record database =
  users :: "user list"
  tasks :: "task list"
  orders :: "order list"
  foreign_keys :: bool

text \<open>A server-assigned primary key: an integer above every key in the table.\<close>

definition fresh_id :: "int list \<Rightarrow> int" where
  "fresh_id ks = foldr max ks 0 + 1"

text \<open>\<open>session.query(Model).get(k)\<close>: the first row with primary key \<open>k\<close>.\<close>

definition query_get :: "('a row_scheme) list \<Rightarrow> int \<Rightarrow> ('a row_scheme) option" where
  "query_get rows k = find (\<lambda>r. id' r = k) rows"

section \<open>External collaborators\<close>

datatype jwt_error = ExpiredSignatureError | InvalidTokenError

record jwt_payload =
  jwt_user_id :: int
  jwt_exp :: int

text \<open>
  What the handlers call and do not define, and the signing secret of \<open>config.py\<close>.
  \<open>jwt_encode\<close> signs a payload under a key (HS256); \<open>jwt_verify\<close> reads a token back
  when it is well formed and its signature matches the key; \<open>isoformat\<close> renders a
  timestamp; \<open>py_int\<close> is Python's \<open>int(text)\<close>, \<open>None\<close> for \<open>ValueError\<close>.

  The storage engine is a black box as well. \<open>read_String\<close>, \<open>read_Integer\<close>,
  \<open>read_Float\<close> and \<open>read_DateTime\<close> are what a column of that type holds after a
  value that is not \<open>null\<close> was written to it (the engine may convert the value, round
  it, or reject it: \<open>None\<close>); nothing is assumed of them.
\<close>

record env =
  SECRET_KEY :: string
  jwt_encode :: "jwt_payload \<Rightarrow> string \<Rightarrow> string"
  jwt_verify :: "string \<Rightarrow> string \<Rightarrow> jwt_payload option"
  isoformat :: "int \<Rightarrow> string"
  py_int :: "string \<Rightarrow> int option"
  read_String :: "json \<Rightarrow> string option"
  read_Integer :: "json \<Rightarrow> int option"
  read_Float :: "json \<Rightarrow> rat option"
  read_DateTime :: "json \<Rightarrow> int option"

section \<open>Responses\<close>

text \<open>A response is a status code and a JSON body, as \<open>jsonify(...), code\<close>.\<close>

type_synonym response = "nat \<times> json"

definition msg :: "string \<Rightarrow> json" where
  "msg s = JObj [(''msg'', JStr s)]"

text \<open>
  An exception no handler catches ends the request with status 500; the session is
  rolled back, so the database is as before the request.
\<close>

definition internal_error :: response where
  "internal_error = (500, msg ''Internal server error'')"

section \<open>The query attribute of the model classes\<close>

text \<open>
  \<open>models.py\<close> builds \<open>User\<close>, \<open>Task\<close> and \<open>Order\<close> on a plain
  \<open>declarative_base()\<close>, and nothing in the repository gives these classes a
  \<open>query\<close> attribute. The handlers of \<open>auth.py\<close> and \<open>routes.py\<close> read
  \<open>User.query\<close>, \<open>Task.query\<close> and \<open>Order.query\<close>: the expression raises
  \<open>AttributeError\<close>, no handler catches it, and nothing after it in the handler
  runs. Below, such a handler ends in \<open>internal_error\<close> at the line that reads the
  attribute. \<open>create_task\<close>, \<open>create_order\<close>, the token functions and the
  facade of \<open>gui/database_service.py\<close> (which goes through \<open>session.query\<close>) do not
  read it.
\<close>

section \<open>Authentication (auth.py)\<close>

definition generate_token :: "env \<Rightarrow> int \<Rightarrow> int \<Rightarrow> string" where
  "generate_token E now uid =
     jwt_encode E \<lparr>jwt_user_id = uid, jwt_exp = now + 24 * 3600\<rparr> (SECRET_KEY E)"

text \<open>
  \<open>register\<close>: the two 400 checks, then \<open>User.query\<close> at line 67. A body that is
  truthy and no dict fails earlier, at \<open>data.get\<close>.
\<close>

definition register :: "database \<Rightarrow> json \<Rightarrow> database \<times> response" where
  "register db data =
     (if \<not> truthy data then (db, (400, msg ''Missing JSON body''))
      else case data of
        JObj d \<Rightarrow>
          (let username_v = dict_get d ''username'';
               email_v = dict_get d ''email'';
               password_v = dict_get d ''password''
           in if \<not> (truthy username_v \<and> truthy email_v \<and> truthy password_v)
              then (db, (400, msg ''username, email and password required''))
              else (db, internal_error))
      | _ \<Rightarrow> (db, internal_error))"

text \<open>\<open>login\<close>: the two 400 checks, then \<open>User.query\<close> at line 101.\<close>

definition login :: "database \<Rightarrow> json \<Rightarrow> database \<times> response" where
  "login db data =
     (if \<not> truthy data then (db, (400, msg ''Missing JSON body''))
      else case data of
        JObj d \<Rightarrow>
          (let email_v = dict_get d ''email'';
               password_v = dict_get d ''password''
           in if \<not> (truthy email_v \<and> truthy password_v)
              then (db, (400, msg ''email and password required''))
              else (db, internal_error))
      | _ \<Rightarrow> (db, internal_error))"

text \<open>
  \<open>jwt.decode(token, key, algorithms=['HS256'])\<close> of PyJWT 2.8.0 (the version
  \<open>setup.py\<close> pins): the signature is checked first, then the expiry; a token is
  expired when \<open>exp \<le> now\<close>.
\<close>

definition jwt_decode :: "env \<Rightarrow> int \<Rightarrow> string \<Rightarrow> string \<Rightarrow> jwt_error + jwt_payload" where
  "jwt_decode E now token key =
     (case jwt_verify E token key of
        None \<Rightarrow> Inl InvalidTokenError
      | Some payload \<Rightarrow>
          if jwt_exp payload \<le> now then Inl ExpiredSignatureError else Inr payload)"

text \<open>\<open>s.split(c)\<close> with an explicit separator: every occurrence splits.\<close>

fun split_on :: "char \<Rightarrow> string \<Rightarrow> string list" where
  "split_on c [] = [[]]"
| "split_on c (x # xs) =
     (if x = c then [] # split_on c xs
      else case split_on c xs of
             w # ws \<Rightarrow> (x # w) # ws
           | [] \<Rightarrow> [[x]])"

definition startswith :: "string \<Rightarrow> string \<Rightarrow> bool" where
  "startswith s p = (take (length p) s = p)"

text \<open>
  \<open>me\<close>: the header checks and the decoding; with a token that decodes, the handler
  goes on to \<open>User.query\<close> at line 130.
\<close>

definition me :: "env \<Rightarrow> int \<Rightarrow> database \<Rightarrow> string option \<Rightarrow> response" where
  "me E now db auth_header =
     (case auth_header of
        None \<Rightarrow> (401, msg ''Missing token'')
      | Some h \<Rightarrow>
          if h = [] \<or> \<not> startswith h ''Bearer '' then (401, msg ''Missing token'')
          else (case split_on (CHR '' '') h of
            bearer # token # rest \<Rightarrow>
              (case jwt_decode E now token (SECRET_KEY E) of
                 Inl ExpiredSignatureError \<Rightarrow> (401, msg ''Token expired'')
               | Inl InvalidTokenError \<Rightarrow> (401, msg ''Invalid token'')
               | Inr payload \<Rightarrow> internal_error)
          | _ \<Rightarrow> internal_error))"

section \<open>Columns and constraints\<close>

text \<open>
  A column declared \<open>nullable=False\<close> in \<open>models.py\<close> (title, product_name, price,
  user_id) rejects \<open>null\<close>; another column keeps it. Any other value is what the
  storage engine reads it as. \<open>None\<close> is the commit failing.
\<close>

definition not_null :: "(json \<Rightarrow> 'a option) \<Rightarrow> json \<Rightarrow> 'a option" where
  "not_null c v = (if v = JNull then None else c v)"

definition nullable :: "(json \<Rightarrow> 'a option) \<Rightarrow> json \<Rightarrow> 'a option option" where
  "nullable c v = (if v = JNull then Some None else map_option Some (c v))"

text \<open>
  A column with a \<open>default\<close> takes it on insert when the attribute is \<open>None\<close>.
\<close>

definition with_default :: "json \<Rightarrow> json \<Rightarrow> json" where
  "with_default dflt v = (if v = JNull then dflt else v)"

text \<open>The foreign key of Task and Order, where the storage engine enforces it.\<close>

definition fk_ok :: "database \<Rightarrow> int \<Rightarrow> bool" where
  "fk_ok db u = (foreign_keys db \<longrightarrow> query_get (users db) u \<noteq> None)"

text \<open>\<open>session.delete(row)\<close> and commit: the row with primary key \<open>k\<close> removed.\<close>

fun delete_row :: "int \<Rightarrow> ('a row_scheme) list \<Rightarrow> ('a row_scheme) list" where
  "delete_row k [] = []"
| "delete_row k (r # rs) = (if id' r = k then rs else r # delete_row k rs)"

section \<open>Query arguments\<close>

text \<open>
  \<open>request.args.get(key, default, type=int)\<close>: the default when the key is absent or
  the conversion raises \<open>ValueError\<close>, the converted value otherwise.
\<close>

definition args_get_int :: "env \<Rightarrow> (string \<times> string) list \<Rightarrow> string \<Rightarrow> int \<Rightarrow> int" where
  "args_get_int E args k dflt =
     (case map_of args k of
        None \<Rightarrow> dflt
      | Some s \<Rightarrow> (case py_int E s of None \<Rightarrow> dflt | Some n \<Rightarrow> n))"

text \<open>Lines 72-73 and 161-162 of \<open>routes.py\<close>: the two parameters as the list handlers read them.\<close>

definition read_page :: "env \<Rightarrow> (string \<times> string) list \<Rightarrow> int" where
  "read_page E args = args_get_int E args ''page'' 1"

definition read_per_page :: "env \<Rightarrow> (string \<times> string) list \<Rightarrow> int" where
  "read_per_page E args = args_get_int E args ''per_page'' 10"

section \<open>Resource API (routes.py)\<close>

text \<open>
  A handler that writes returns the database with its response; a handler that only
  reads returns its response.
\<close>

definition opt_str :: "string option \<Rightarrow> json" where
  "opt_str v = (case v of None \<Rightarrow> JNull | Some s \<Rightarrow> JStr s)"

definition task_to_dict :: "env \<Rightarrow> task \<Rightarrow> json" where
  "task_to_dict E t =
     JObj [(''id'', JNum (of_int (id' t))),
           (''title'', JStr (title t)),
           (''description'', opt_str (description t)),
           (''status'', opt_str (status t)),
           (''due_date'', (case due_date t of None \<Rightarrow> JNull | Some d \<Rightarrow> JStr (isoformat E d))),
           (''user_id'', JNum (of_int (user_id t))),
           (''created_at'', JStr (isoformat E (created_at t)))]"

definition order_to_dict :: "env \<Rightarrow> order \<Rightarrow> json" where
  "order_to_dict E r =
     JObj [(''id'', JNum (of_int (id' r))),
           (''product_name'', JStr (product_name r)),
           (''quantity'', (case quantity r of None \<Rightarrow> JNull | Some q \<Rightarrow> JNum (of_int q))),
           (''price'', JNum (price r)),
           (''user_id'', JNum (of_int (user_id r))),
           (''created_at'', JStr (isoformat E (created_at r)))]"

subsection \<open>Tasks\<close>

text \<open>
  \<open>get_tasks\<close>: the three arguments are read, then \<open>Task.query\<close> at line 76.
\<close>

definition get_tasks :: "env \<Rightarrow> database \<Rightarrow> (string \<times> string) list \<Rightarrow> response" where
  "get_tasks E db args =
     (let page = read_page E args;
          per_page = read_per_page E args;
          user_id_v = map_of args ''user_id''
      in internal_error)"

text \<open>
  \<open>Task(...)\<close>, \<open>db.session.add\<close> and \<open>db.session.commit\<close>: the row the commit
  writes, or \<open>None\<close> when a column rejects its value or the owner is missing.
\<close>

definition commit_new_task ::
  "env \<Rightarrow> int \<Rightarrow> database \<Rightarrow> json \<Rightarrow> json \<Rightarrow> json \<Rightarrow> json \<Rightarrow> json \<Rightarrow> task option" where
  "commit_new_task E now db title_v description_v status_v due_date_v user_id_v =
     do {
       t \<leftarrow> not_null (read_String E) title_v;
       d \<leftarrow> nullable (read_String E) description_v;
       s \<leftarrow> nullable (read_String E) (with_default (JStr ''pending'') status_v);
       dd \<leftarrow> nullable (read_DateTime E) due_date_v;
       u \<leftarrow> not_null (read_Integer E) user_id_v;
       if fk_ok db u
       then Some \<lparr>id' = fresh_id (map id' (tasks db)), created_at = now, user_id = u,
                  title = t, description = d, status = s, due_date = dd\<rparr>
       else None
     }"

definition create_task :: "env \<Rightarrow> int \<Rightarrow> database \<Rightarrow> json \<Rightarrow> database \<times> response" where
  "create_task E now db data =
     (if \<not> truthy data then (db, (400, msg ''Missing JSON body''))
      else case data of
        JObj d \<Rightarrow>
          (let title_v = dict_get d ''title''
           in if \<not> truthy title_v then (db, (400, msg ''Title is required''))
              else (case commit_new_task E now db title_v
                           (dict_get d ''description'')
                           (dict_get_default d ''status'' (JStr ''pending''))
                           (dict_get d ''due_date'')
                           (dict_get d ''user_id'') of
                      None \<Rightarrow> (db, internal_error)
                    | Some t \<Rightarrow> (db\<lparr>tasks := tasks db @ [t]\<rparr>, (201, task_to_dict E t))))
      | _ \<Rightarrow> (db, internal_error))"

text \<open>
  \<open>get_task\<close>, \<open>update_task\<close> and \<open>delete_task\<close> open with
  \<open>Task.query.get_or_404(task_id)\<close> (lines 119, 127, 144).
\<close>

definition get_task :: "database \<Rightarrow> int \<Rightarrow> response" where
  "get_task db task_id = internal_error"

definition update_task :: "database \<Rightarrow> int \<Rightarrow> json \<Rightarrow> database \<times> response" where
  "update_task db task_id data = (db, internal_error)"

definition delete_task :: "database \<Rightarrow> int \<Rightarrow> database \<times> response" where
  "delete_task db task_id = (db, internal_error)"

subsection \<open>Orders\<close>

text \<open>
  \<open>get_orders\<close>: the three arguments are read, then \<open>Order.query\<close> at line 165.
\<close>

definition get_orders :: "env \<Rightarrow> database \<Rightarrow> (string \<times> string) list \<Rightarrow> response" where
  "get_orders E db args =
     (let page = read_page E args;
          per_page = read_per_page E args;
          user_id_v = map_of args ''user_id''
      in internal_error)"

definition commit_new_order ::
  "env \<Rightarrow> int \<Rightarrow> database \<Rightarrow> json \<Rightarrow> json \<Rightarrow> json \<Rightarrow> json \<Rightarrow> order option" where
  "commit_new_order E now db product_name_v quantity_v price_v user_id_v =
     do {
       n \<leftarrow> not_null (read_String E) product_name_v;
       q \<leftarrow> nullable (read_Integer E) (with_default (JNum 1) quantity_v);
       p \<leftarrow> not_null (read_Float E) price_v;
       u \<leftarrow> not_null (read_Integer E) user_id_v;
       if fk_ok db u
       then Some \<lparr>id' = fresh_id (map id' (orders db)), created_at = now, user_id = u,
                  product_name = n, quantity = q, price = p\<rparr>
       else None
     }"

definition create_order :: "env \<Rightarrow> int \<Rightarrow> database \<Rightarrow> json \<Rightarrow> database \<times> response" where
  "create_order E now db data =
     (if \<not> truthy data then (db, (400, msg ''Missing JSON body''))
      else case data of
        JObj d \<Rightarrow>
          (let product_name_v = dict_get d ''product_name'';
               price_v = dict_get d ''price''
           in if \<not> truthy product_name_v \<or> price_v = JNull
              then (db, (400, msg ''product_name and price are required''))
              else (case commit_new_order E now db product_name_v
                           (dict_get_default d ''quantity'' (JNum 1))
                           price_v
                           (dict_get d ''user_id'') of
                      None \<Rightarrow> (db, internal_error)
                    | Some r \<Rightarrow> (db\<lparr>orders := orders db @ [r]\<rparr>, (201, order_to_dict E r))))
      | _ \<Rightarrow> (db, internal_error))"

text \<open>
  \<open>get_order\<close> and \<open>update_order\<close> open with \<open>Order.query.get_or_404(order_id)\<close>
  (lines 209, 217).
\<close>

definition get_order :: "database \<Rightarrow> int \<Rightarrow> response" where
  "get_order db order_id = internal_error"

definition update_order :: "database \<Rightarrow> int \<Rightarrow> json \<Rightarrow> database \<times> response" where
  "update_order db order_id data = (db, internal_error)"

section \<open>Local client facade (gui/database_service.py)\<close>

text \<open>
  \<open>DatabaseService.delete_task\<close>, on a service that holds a database and
  \<open>current_user_id\<close>, \<open>None\<close> when nobody is logged in. The method goes through
  \<open>session.query(Task).get(task_id)\<close>, which the model classes support.
\<close>

definition DatabaseService_delete_task :: "database \<Rightarrow> int option \<Rightarrow> int \<Rightarrow> database \<times> bool" where
  "DatabaseService_delete_task db current_user_id task_id =
     (case query_get (tasks db) task_id of
        None \<Rightarrow> (db, False)
      | Some t \<Rightarrow>
          if Some (user_id t) = current_user_id
          then (db\<lparr>tasks := delete_row task_id (tasks db)\<rparr>, True)
          else (db, False))"

section \<open>Example environment and data\<close>

text \<open>
  A small instance to run the handlers on: a token codec that knows one payload, an
  \<open>int\<close> that knows the numerals the examples use, a storage engine that keeps a
  value of the column's own type as it is and rejects any other, one registered user
  and one task of hers.
\<close>

definition example_payload :: jwt_payload where
  "example_payload = \<lparr>jwt_user_id = 1, jwt_exp = 1000 + 24 * 3600\<rparr>"

definition example_env :: env where
  "example_env =
     \<lparr>SECRET_KEY = ''dev-secret-key'',
      jwt_encode = (\<lambda>pl k. if pl = example_payload then ''t1.'' @ k else ''t0.'' @ k),
      jwt_verify = (\<lambda>t k. if t = ''t1.'' @ k then Some example_payload else None),
      isoformat = (\<lambda>t. if t = 1000 then ''1970-01-01T00:16:40'' else ''1970-01-01T00:00:00''),
      py_int = map_of [(''-3'', - 3), (''0'', 0), (''1'', 1), (''4'', 4), (''10'', 10)],
      read_String = (\<lambda>v. case v of JStr s \<Rightarrow> Some s | _ \<Rightarrow> None),
      read_Integer = (\<lambda>v. case v of
                        JNum r \<Rightarrow> if of_int \<lfloor>r\<rfloor> = r then Some \<lfloor>r\<rfloor> else None
                      | _ \<Rightarrow> None),
      read_Float = (\<lambda>v. case v of JNum r \<Rightarrow> Some r | _ \<Rightarrow> None),
      read_DateTime = (\<lambda>v. if v = JStr ''1970-01-01T00:16:40'' then Some 1000 else None)\<rparr>"

definition alice :: user where
  "alice = \<lparr>id' = 1, created_at = 0, username = ''alice'', email = ''a@x.com'',
            password_hash = ''pbkdf2:secret'', role = Some ''user''\<rparr>"

definition example_task :: task where
  "example_task = \<lparr>id' = 1, created_at = 0, user_id = 1, title = ''old'',
                   description = None, status = Some ''pending'', due_date = None\<rparr>"

definition new_task :: task where
  "new_task = \<lparr>id' = 2, created_at = 1000, user_id = 1, title = ''new'',
               description = None, status = Some ''pending'', due_date = None\<rparr>"


definition example_db :: database where
  "example_db = \<lparr>users = [alice], tasks = [example_task], orders = [], foreign_keys = True\<rparr>"

definition empty_db :: database where
  "empty_db = \<lparr>users = [], tasks = [], orders = [], foreign_keys = True\<rparr>"

text \<open>Twenty-five tasks and twenty-five orders, numbered 1 to 25, all owned by user 1.\<close>

definition numbered_task :: "int \<Rightarrow> task" where
  "numbered_task i = \<lparr>id' = i, created_at = 0, user_id = 1, title = ''t'',
                      description = None, status = Some ''pending'', due_date = None\<rparr>"

definition numbered_order :: "int \<Rightarrow> order" where
  "numbered_order i = \<lparr>id' = i, created_at = 0, user_id = 1, product_name = ''p'',
                       quantity = Some 1, price = 2\<rparr>"

definition db25 :: database where
  "db25 = \<lparr>users = [alice], tasks = map numbered_task [1..25],
           orders = map numbered_order [1..25], foreign_keys = True\<rparr>"

section \<open>Basic facts\<close>

lemma find_SomeD: "find P xs = Some x \<Longrightarrow> x \<in> set xs \<and> P x"
  by (induction xs) (auto split: if_splits)

text \<open>The fields of the example environment, and the definitions that evaluate the
  handlers on the example data.\<close>

lemma example_env_fields:
  "SECRET_KEY example_env = ''dev-secret-key''"
  "jwt_encode example_env pl k = (if pl = example_payload then ''t1.'' @ k else ''t0.'' @ k)"
  "jwt_verify example_env t k = (if t = ''t1.'' @ k then Some example_payload else None)"
  "isoformat example_env ts =
     (if ts = 1000 then ''1970-01-01T00:16:40'' else ''1970-01-01T00:00:00'')"
  "py_int example_env = map_of [(''-3'', - 3), (''0'', 0), (''1'', 1), (''4'', 4), (''10'', 10)]"
  "read_String example_env v = (case v of JStr s \<Rightarrow> Some s | _ \<Rightarrow> None)"
  "read_Integer example_env v =
     (case v of JNum r \<Rightarrow> if of_int \<lfloor>r\<rfloor> = r then Some \<lfloor>r\<rfloor> else None | _ \<Rightarrow> None)"
  "read_Float example_env v = (case v of JNum r \<Rightarrow> Some r | _ \<Rightarrow> None)"
  "read_DateTime example_env v = (if v = JStr ''1970-01-01T00:16:40'' then Some 1000 else None)"
  by (simp_all add: example_env_def)

lemmas example_simps =
  dict_get_def dict_get_default_def example_db_def alice_def example_task_def
  example_env_fields example_payload_def query_get_def fresh_id_def fk_ok_def
  not_null_def nullable_def with_default_def task_to_dict_def order_to_dict_def
  opt_str_def internal_error_def Let_def

section \<open>Registration\<close>

text \<open>
  Claim C1, on the code as shipped. \<open>register\<close> never changes the database and never
  answers anything but 400 or 500: a request carrying username, email and password
  passes the two checks and then fails at \<open>User.query\<close>. Alice's registration on the
  empty database, where the claim says 201 with a token, is answered 500 and stores
  nobody; a registration with her email once she is stored, where the claim says 409,
  is answered 500 as well.
\<close>

theorem register_fails_at_query:
  "fst (register db data) = db
   \<and> (fst (snd (register db data)) = 400 \<or> fst (snd (register db data)) = 500)
   \<and> register empty_db
        (JObj [(''username'', JStr ''alice''), (''email'', JStr ''a@x.com''),
               (''password'', JStr ''secret'')])
      = (empty_db, (500, msg ''Internal server error''))
   \<and> register example_db
        (JObj [(''username'', JStr ''bob''), (''email'', JStr ''a@x.com''),
               (''password'', JStr ''hunter2'')])
      = (example_db, (500, msg ''Internal server error''))"
proof -
  have "fst (register db data) = db
      \<and> (fst (snd (register db data)) = 400 \<or> fst (snd (register db data)) = 500)"
    by (cases data) (simp_all add: register_def Let_def internal_error_def)
  then show ?thesis
    by (simp add: register_def Let_def internal_error_def dict_get_def dict_get_default_def)
qed

section \<open>Login\<close>

text \<open>
  Claim C7, on the code as shipped. \<open>login\<close> never changes the database and never
  answers anything but 400 or 500: a request carrying email and password fails at
  \<open>User.query\<close>. Alice's login with her password, where the claim says 200 with a
  token, and with a wrong password, where the claim says 401, are both answered 500.
\<close>

theorem login_fails_at_query:
  "fst (login db data) = db
   \<and> (fst (snd (login db data)) = 400 \<or> fst (snd (login db data)) = 500)
   \<and> login example_db (JObj [(''email'', JStr ''a@x.com''), (''password'', JStr ''secret'')])
      = (example_db, (500, msg ''Internal server error''))
   \<and> login example_db (JObj [(''email'', JStr ''a@x.com''), (''password'', JStr ''wrong'')])
      = (example_db, (500, msg ''Internal server error''))"
proof -
  have "fst (login db data) = db
      \<and> (fst (snd (login db data)) = 400 \<or> fst (snd (login db data)) = 500)"
    by (cases data) (simp_all add: login_def Let_def internal_error_def)
  then show ?thesis
    by (simp add: login_def Let_def internal_error_def dict_get_def dict_get_default_def)
qed

section \<open>Tokens\<close>

lemma split_on_no_sep: "c \<notin> set s \<Longrightarrow> split_on c s = [s]"
  by (induction s) auto

lemma split_on_bearer:
  "CHR '' '' \<notin> set tok \<Longrightarrow> split_on (CHR '' '') (''Bearer '' @ tok) = [''Bearer'', tok]"
  by (simp add: split_on_no_sep)

text \<open>
  Claim C2. The token issued for a user id at time \<open>t0\<close> is the signed payload of that
  user id and the expiry \<open>t0 + 24 * 3600\<close>. Given that the token library reads back
  the payload it signed, and that the token holds no space: decoding before the expiry
  yields the payload with the same user id; after the expiry decoding fails with
  \<open>ExpiredSignatureError\<close>, and the Me endpoint answers 401.
\<close>

theorem token_roundtrip_and_expiry:
  assumes "jwt_verify E (jwt_encode E \<lparr>jwt_user_id = uid, jwt_exp = t0 + 24 * 3600\<rparr> (SECRET_KEY E))
             (SECRET_KEY E) = Some \<lparr>jwt_user_id = uid, jwt_exp = t0 + 24 * 3600\<rparr>"
    and "CHR '' '' \<notin> set (generate_token E t0 uid)"
  shows "generate_token E t0 uid =
           jwt_encode E \<lparr>jwt_user_id = uid, jwt_exp = t0 + 24 * 3600\<rparr> (SECRET_KEY E)
       \<and> (now < t0 + 24 * 3600 \<longrightarrow>
            jwt_decode E now (generate_token E t0 uid) (SECRET_KEY E)
              = Inr \<lparr>jwt_user_id = uid, jwt_exp = t0 + 24 * 3600\<rparr>)
       \<and> (t0 + 24 * 3600 < now \<longrightarrow>
            jwt_decode E now (generate_token E t0 uid) (SECRET_KEY E) = Inl ExpiredSignatureError
            \<and> me E now db (Some (''Bearer '' @ generate_token E t0 uid))
                = (401, msg ''Token expired''))"
proof -
  let ?tok = "generate_token E t0 uid"
  let ?P = "\<lparr>jwt_user_id = uid, jwt_exp = t0 + 24 * 3600\<rparr>"
  have tok: "?tok = jwt_encode E ?P (SECRET_KEY E)"
    by (simp add: generate_token_def)
  have ver: "jwt_verify E ?tok (SECRET_KEY E) = Some ?P"
    using assms(1) by (simp add: generate_token_def)
  have live: "now < t0 + 24 * 3600 \<Longrightarrow> jwt_decode E now ?tok (SECRET_KEY E) = Inr ?P"
    by (simp add: jwt_decode_def ver)
  have dead: "t0 + 24 * 3600 < now \<Longrightarrow>
                jwt_decode E now ?tok (SECRET_KEY E) = Inl ExpiredSignatureError"
    by (simp add: jwt_decode_def ver)
  have hdr: "split_on (CHR '' '') (''Bearer '' @ ?tok) = [''Bearer'', ?tok]"
    using assms(2) by (rule split_on_bearer)
  have pre: "startswith (''Bearer '' @ ?tok) ''Bearer ''"
    by (simp add: startswith_def)
  have me: "t0 + 24 * 3600 < now \<Longrightarrow>
              me E now db (Some (''Bearer '' @ ?tok)) = (401, msg ''Token expired'')"
    unfolding me_def by (simp only: option.case hdr pre list.case dead) simp
  show ?thesis using tok live dead me by blast
qed

text \<open>
  The token issued at time 1000 for user 1, decoded one second before and one second
  after its expiry at 87400.
\<close>

theorem token_roundtrip_and_expiry_witness:
  "generate_token example_env 1000 1 = ''t1.dev-secret-key''
   \<and> jwt_decode example_env 87399 ''t1.dev-secret-key'' ''dev-secret-key''
        = Inr \<lparr>jwt_user_id = 1, jwt_exp = 87400\<rparr>
   \<and> jwt_decode example_env 87401 ''t1.dev-secret-key'' ''dev-secret-key''
        = Inl ExpiredSignatureError
   \<and> me example_env 87401 example_db (Some ''Bearer t1.dev-secret-key'')
        = (401, msg ''Token expired'')"
proof -
  have tok: "generate_token example_env 1000 1 = ''t1.dev-secret-key''"
    by (simp add: generate_token_def example_env_fields example_payload_def)
  have key: "SECRET_KEY example_env = ''dev-secret-key''"
    by (simp add: example_env_fields)
  have ver: "jwt_verify example_env
               (jwt_encode example_env \<lparr>jwt_user_id = 1, jwt_exp = 1000 + 24 * 3600\<rparr>
                  (SECRET_KEY example_env))
               (SECRET_KEY example_env)
             = Some \<lparr>jwt_user_id = 1, jwt_exp = 1000 + 24 * 3600\<rparr>"
    by (simp add: example_env_fields example_payload_def)
  have nsp: "CHR '' '' \<notin> set (generate_token example_env 1000 1)"
    by (simp add: tok)
  have live: "jwt_decode example_env 87399 ''t1.dev-secret-key'' ''dev-secret-key''
                = Inr \<lparr>jwt_user_id = 1, jwt_exp = 87400\<rparr>"
    using token_roundtrip_and_expiry [OF ver nsp, of 87399 example_db,
            THEN conjunct2, THEN conjunct1]
    by (simp add: tok key)
  have dead: "jwt_decode example_env 87401 ''t1.dev-secret-key'' ''dev-secret-key''
                = Inl ExpiredSignatureError
              \<and> me example_env 87401 example_db (Some ''Bearer t1.dev-secret-key'')
                = (401, msg ''Token expired'')"
    using token_roundtrip_and_expiry [OF ver nsp, of 87401 example_db,
            THEN conjunct2, THEN conjunct2]
    by (simp add: tok key)
  show ?thesis using tok live dead by simp
qed

section \<open>Deleting a task through the local facade\<close>

lemma delete_row_remove1: "query_get rows k = Some t \<Longrightarrow> delete_row k rows = remove1 t rows"
  unfolding query_get_def by (induction rows) (auto dest: find_SomeD split: if_splits)

text \<open>
  Claim C10. \<open>DatabaseService.delete_task\<close> deletes and returns \<open>True\<close> exactly when a
  task with the given id exists and its owner is the logged-in user; in every other case
  (no such task, another owner, nobody logged in) it returns \<open>False\<close> and leaves the
  database as it is. What it deletes is that one task. The delete endpoint of the HTTP
  API makes no ownership check: as shipped it fails at \<open>Task.query\<close> on every
  request, whoever owns the task.
\<close>

theorem facade_delete_task_ownership:
  "DatabaseService_delete_task db cur k =
     (if \<exists>t. query_get (tasks db) k = Some t \<and> Some (user_id t) = cur
      then (db\<lparr>tasks := delete_row k (tasks db)\<rparr>, True)
      else (db, False))
   \<and> (\<forall>t. query_get (tasks db) k = Some t \<longrightarrow>
         delete_row k (tasks db) = remove1 t (tasks db))
   \<and> delete_task db k = (db, (500, msg ''Internal server error''))"
  by (auto simp: DatabaseService_delete_task_def delete_task_def delete_row_remove1
           internal_error_def split: option.splits)

text \<open>
  Alice's task: deleted by her, kept for user 2 and for nobody; an unknown id deletes
  nothing; the HTTP endpoint answers 500 and deletes nothing.
\<close>

theorem facade_delete_task_ownership_witness:
  "DatabaseService_delete_task example_db (Some 1) 1 = (example_db\<lparr>tasks := []\<rparr>, True)
   \<and> DatabaseService_delete_task example_db (Some 2) 1 = (example_db, False)
   \<and> DatabaseService_delete_task example_db None 1 = (example_db, False)
   \<and> DatabaseService_delete_task example_db (Some 1) 7 = (example_db, False)
   \<and> delete_task example_db 1 = (example_db, (500, msg ''Internal server error''))"
  using facade_delete_task_ownership [of example_db "Some 1" 1]
    facade_delete_task_ownership [of example_db "Some 2" 1]
    facade_delete_task_ownership [of example_db None 1]
    facade_delete_task_ownership [of example_db "Some 1" 7]
  by (simp add: example_db_def example_task_def query_get_def)

section \<open>Listing\<close>

text \<open>
  Claim C4, on the code as shipped. Every list request is answered 500: \<open>get_tasks\<close>
  and \<open>get_orders\<close> fail at \<open>Task.query\<close> and \<open>Order.query\<close>. With twenty-five
  tasks stored, the request \<open>page=1&per_page=10\<close>, where the claim says 200 with
  total 25, pages 3 and ten items, is answered 500.
\<close>

theorem list_fails_at_query:
  "get_tasks E db args = (500, msg ''Internal server error'')
   \<and> get_orders E db args = (500, msg ''Internal server error'')
   \<and> length (tasks db25) = 25
   \<and> get_tasks example_env db25 [(''page'', ''1''), (''per_page'', ''10'')]
      = (500, msg ''Internal server error'')"
  by (simp add: get_tasks_def get_orders_def internal_error_def db25_def)

section \<open>Create, then get\<close>

text \<open>
  Claim C9, on the code as shipped. A task created for alice is answered 201 and stored
  with id 2; the Get-by-id that follows, with that id, is answered 500 and returns no
  field at all: \<open>get_task\<close> fails at \<open>Task.query\<close>, whatever the database and
  the id, and \<open>get_order\<close> fails the same way at \<open>Order.query\<close>.
\<close>

theorem get_after_create_fails_at_query:
  "create_task example_env 1000 example_db
       (JObj [(''title'', JStr ''new''), (''user_id'', JNum 1)])
     = (example_db\<lparr>tasks := [example_task, new_task]\<rparr>,
        (201, task_to_dict example_env new_task))
   \<and> get_task (example_db\<lparr>tasks := [example_task, new_task]\<rparr>) 2
     = (500, msg ''Internal server error'')
   \<and> get_task db k = (500, msg ''Internal server error'')
   \<and> get_order db k = (500, msg ''Internal server error'')"
  by (simp add: create_task_def commit_new_task_def get_task_def get_order_def
        new_task_def example_simps)

section \<open>Partial update of a task\<close>

text \<open>
  Claim C3, on the code as shipped. \<open>update_task\<close> overwrites nothing: whatever the
  id and the body, it fails at \<open>Task.query.get_or_404\<close>, the answer is 500 and
  the database is unchanged. An update of alice's task that supplies a new status, where
  the claim says the status is overwritten, leaves it pending; an update for an id no
  task has, where the claim says NotFound, is answered 500.
\<close>

theorem update_task_fails_at_query:
  "update_task db k data = (db, (500, msg ''Internal server error''))
   \<and> update_task example_db 1 (JObj [(''status'', JStr ''completed'')])
      = (example_db, (500, msg ''Internal server error''))
   \<and> map status (tasks example_db) = [Some ''pending'']
   \<and> query_get (tasks example_db) 7 = None
   \<and> update_task example_db 7 (JObj [(''status'', JStr ''completed'')])
      = (example_db, (500, msg ''Internal server error''))"
  by (simp add: update_task_def internal_error_def example_db_def example_task_def
        query_get_def)

section \<open>Required fields on create\<close>

text \<open>
  Claim C6 as stated fails for the owner reference: a create request with a title and
  no \<open>user_id\<close> is not answered 400. The handler hands the row to the storage
  layer, whose NOT NULL constraint rejects it, and the answer is 500.
\<close>

theorem create_without_owner_counterexample:
  "dict_get [(''title'', JStr ''t'')] ''user_id'' = JNull
   \<and> create_task example_env 1000 example_db (JObj [(''title'', JStr ''t'')])
       = (example_db, (500, msg ''Internal server error''))"
  by (simp add: create_task_def commit_new_task_def example_simps)

lemma not_null_JNull: "not_null c JNull = None"
  by (simp add: not_null_def)

text \<open>
  Claim C6, amended. The create handlers check the title (tasks) and the product name
  and price (orders) before touching persistence: a request where one of them is
  missing is answered 400 and the database is unchanged. The owner reference is not
  checked by the handlers: a request whose other required fields are present and whose
  \<open>user_id\<close> is missing reaches the storage layer, which rejects the row; the answer
  is 500 and the database is unchanged.
\<close>

theorem create_validates_title_product_price:
  "(\<not> truthy (dict_get d ''title'') \<longrightarrow>
      fst (create_task E now db (JObj d)) = db
      \<and> fst (snd (create_task E now db (JObj d))) = 400)
   \<and> (\<not> truthy (dict_get d ''product_name'') \<or> dict_get d ''price'' = JNull \<longrightarrow>
      fst (create_order E now db (JObj d)) = db
      \<and> fst (snd (create_order E now db (JObj d))) = 400)
   \<and> (truthy (dict_get d ''title'') \<and> dict_get d ''user_id'' = JNull \<longrightarrow>
      create_task E now db (JObj d) = (db, (500, msg ''Internal server error'')))
   \<and> (truthy (dict_get d ''product_name'') \<and> dict_get d ''price'' \<noteq> JNull
        \<and> dict_get d ''user_id'' = JNull \<longrightarrow>
      create_order E now db (JObj d) = (db, (500, msg ''Internal server error'')))"
proof -
  have t400: "fst (create_task E now db (JObj d)) = db
      \<and> fst (snd (create_task E now db (JObj d))) = 400"
    if "\<not> truthy (dict_get d ''title'')"
    using that by (simp add: create_task_def Let_def)
  have o400: "fst (create_order E now db (JObj d)) = db
      \<and> fst (snd (create_order E now db (JObj d))) = 400"
    if "\<not> truthy (dict_get d ''product_name'') \<or> dict_get d ''price'' = JNull"
    using that by (auto simp: create_order_def Let_def)
  have t500: "create_task E now db (JObj d) = (db, (500, msg ''Internal server error''))"
    if a: "truthy (dict_get d ''title'') \<and> dict_get d ''user_id'' = JNull"
  proof -
    have "d \<noteq> []" using a by (auto simp: dict_get_def dict_get_default_def)
    moreover have "commit_new_task E now db x1 x2 x3 x4 JNull = None" for x1 x2 x3 x4
      by (simp add: commit_new_task_def not_null_JNull split: bind_splits)
    ultimately show ?thesis
      using a by (simp add: create_task_def Let_def internal_error_def)
  qed
  have o500: "create_order E now db (JObj d) = (db, (500, msg ''Internal server error''))"
    if a: "truthy (dict_get d ''product_name'') \<and> dict_get d ''price'' \<noteq> JNull
        \<and> dict_get d ''user_id'' = JNull"
  proof -
    have "d \<noteq> []" using a by (auto simp: dict_get_def dict_get_default_def)
    moreover have "commit_new_order E now db x1 x2 x3 JNull = None" for x1 x2 x3
      by (simp add: commit_new_order_def not_null_JNull split: bind_splits)
    ultimately show ?thesis
      using a by (simp add: create_order_def Let_def internal_error_def)
  qed
  show ?thesis using t400 o400 t500 o500 by blast
qed

text \<open>
  Four requests on the example database: no title, no price, and a task and an order
  without owner.
\<close>

theorem create_validates_title_product_price_witness:
  "create_task example_env 1000 example_db (JObj [(''user_id'', JNum 1)])
     = (example_db, (400, msg ''Title is required''))
   \<and> create_order example_env 1000 example_db
        (JObj [(''product_name'', JStr ''pen''), (''user_id'', JNum 1)])
     = (example_db, (400, msg ''product_name and price are required''))
   \<and> create_task example_env 1000 example_db (JObj [(''title'', JStr ''t'')])
     = (example_db, (500, msg ''Internal server error''))
   \<and> create_order example_env 1000 example_db
        (JObj [(''product_name'', JStr ''pen''), (''price'', JNum 3)])
     = (example_db, (500, msg ''Internal server error''))"
  using create_validates_title_product_price [of "[(''user_id'', JNum 1)]" example_env 1000 example_db]
    create_validates_title_product_price [of "[(''product_name'', JStr ''pen''), (''user_id'', JNum 1)]"
       example_env 1000 example_db]
    create_validates_title_product_price [of "[(''title'', JStr ''t'')]" example_env 1000 example_db]
    create_validates_title_product_price [of "[(''product_name'', JStr ''pen''), (''price'', JNum 3)]"
       example_env 1000 example_db]
  by (simp add: create_task_def create_order_def commit_new_task_def commit_new_order_def
        example_simps)



section \<open>Order prices\<close>




section \<open>The page and per-page parameters\<close>




end
